theory Spec2Isabelle
  imports Main
begin

section \<open>Python values\<close>

text \<open>
  \<^verbatim>\<open>entrypoint.py\<close> works on the values that \<^verbatim>\<open>json.load\<close> and
  \<^verbatim>\<open>Response.json()\<close> return: \<^verbatim>\<open>None\<close>, booleans, numbers, strings, lists and
  dicts. A dict is an association list in the order of its keys; a lookup takes the
  first pair of a key. A character is a code point below 256, and numbers are integers.
\<close>

datatype json =
    JNull
  | JBool bool
  | JNum int
  | JStr string
  | JArr "json list"
  | JObj "(string \<times> json) list"

text \<open>
  A string built by an f-string or by \<^verbatim>\<open>%\<close> formatting is the list of its pieces:
  literal text, and \<^verbatim>\<open>str(v)\<close> or \<^verbatim>\<open>json.dumps(v)\<close> of a value \<open>v\<close>, which
  stay symbolic. Formatting a Python string gives its text.
\<close>

datatype piece = Lit string | Str_of json | Dumps json

type_synonym pystr = "piece list"

fun fmt :: "json \<Rightarrow> pystr" where
  "fmt (JStr s) = [Lit s]"
| "fmt v = [Str_of v]"

text \<open>\<^verbatim>\<open>sep.join(xs)\<close>.\<close>

fun join :: "pystr \<Rightarrow> pystr list \<Rightarrow> pystr" where
  "join sep [] = []"
| "join sep [x] = x"
| "join sep (x # y # ys) = x @ sep @ join sep (y # ys)"

text \<open>
  The exceptions a run can raise. \<^verbatim>\<open>sys.exit(n)\<close> raises \<^verbatim>\<open>SystemExit\<close>, which no
  handler of the program catches.
\<close>

datatype exn =
    DeploymentFailure pystr
  | SystemExit nat
  | KeyError string
  | TypeError
  | AttributeError
  | OSError
  | JSONDecodeError
  | RequestException
  | HTTPError

text \<open>Truth value of a value in a condition (\<^verbatim>\<open>if v\<close>, \<^verbatim>\<open>not v\<close>, \<^verbatim>\<open>a or b\<close>).\<close>

fun truthy :: "json \<Rightarrow> bool" where
  "truthy JNull = False"
| "truthy (JBool b) = b"
| "truthy (JNum n) = (n \<noteq> 0)"
| "truthy (JStr s) = (s \<noteq> [])"
| "truthy (JArr xs) = (xs \<noteq> [])"
| "truthy (JObj kvs) = (kvs \<noteq> [])"

text \<open>
  \<^verbatim>\<open>v[k]\<close> for a string key \<open>k\<close>: a dict without the key raises \<^verbatim>\<open>KeyError\<close>, every
  other value raises \<^verbatim>\<open>TypeError\<close>.
\<close>

fun subscript :: "json \<Rightarrow> string \<Rightarrow> exn + json" where
  "subscript (JObj kvs) k = (case map_of kvs k of None \<Rightarrow> Inl (KeyError k) | Some v \<Rightarrow> Inr v)"
| "subscript v k = Inl TypeError"

text \<open>\<^verbatim>\<open>v.get(k, d)\<close>: only a dict has the method; \<^verbatim>\<open>v.get(k)\<close> is \<^verbatim>\<open>v.get(k, None)\<close>.\<close>

fun get_default :: "json \<Rightarrow> string \<Rightarrow> json \<Rightarrow> exn + json" where
  "get_default (JObj kvs) k d = (case map_of kvs k of None \<Rightarrow> Inr d | Some v \<Rightarrow> Inr v)"
| "get_default v k d = Inl AttributeError"

text \<open>
  The elements a \<^verbatim>\<open>for\<close> loop or a comprehension visits: the items of a list, the keys
  of a dict, the characters of a string; other values are not iterable.
\<close>

fun iterate :: "json \<Rightarrow> exn + json list" where
  "iterate (JArr xs) = Inr xs"
| "iterate (JObj kvs) = Inr (map (\<lambda>kv. JStr (fst kv)) kvs)"
| "iterate (JStr s) = Inr (map (\<lambda>ch. JStr [ch]) s)"
| "iterate v = Inl TypeError"

subsection \<open>String methods\<close>

definition startswith :: "string \<Rightarrow> string \<Rightarrow> bool" where
  "startswith s p = (take (length p) s = p)"

text \<open>\<^verbatim>\<open>str.isspace\<close> on one character, for the code points below 256.\<close>

definition isspace :: "char \<Rightarrow> bool" where
  "isspace ch =
     (let n = (of_char ch :: nat)
      in (9 \<le> n \<and> n \<le> 13) \<or> (28 \<le> n \<and> n \<le> 32) \<or> n = 133 \<or> n = 160)"

definition strip :: "string \<Rightarrow> string" where
  "strip s = rev (dropWhile isspace (rev (dropWhile isspace s)))"

text \<open>\<^verbatim>\<open>str.lower\<close> on one character, for the code points below 256.\<close>

definition lower_char :: "char \<Rightarrow> char" where
  "lower_char ch =
     (let n = (of_char ch :: nat)
      in if (65 \<le> n \<and> n \<le> 90) \<or> (192 \<le> n \<and> n \<le> 222 \<and> n \<noteq> 215)
         then char_of (n + 32) else ch)"

definition lower :: "string \<Rightarrow> string" where
  "lower s = map lower_char s"

section \<open>Effects\<close>

text \<open>
  A run prints lines and sends HTTP requests. Its trace lists both in the order they
  happen, together with a mark for each call of one of the program's step functions, so
  that the order of the steps can be stated.
\<close>

datatype step =
    Validate_event
  | Load_pr
  | Validate_pr
  | Parse_message
  | Get_environment
  | Check_commit
  | Trigger_deployment
  | React_to_original_comment
  | Add_comment

datatype verb = GET | POST

text \<open>A value of a request's \<^verbatim>\<open>json=\<close> dict: a value of the event or a built string.\<close>

datatype pyval = PJson json | PStr pystr

record request =
  req_verb :: verb
  req_url :: pystr
  req_headers :: "(string \<times> string) list"
  req_json :: "(string \<times> pyval) list option"

text \<open>
  A response: its status code, its \<^verbatim>\<open>text\<close>, and what \<^verbatim>\<open>json()\<close> returns
  (\<open>None\<close> when the text is not JSON).
\<close>

record response =
  status_code :: nat
  resp_text :: string
  resp_json :: "json option"

datatype effect = Print pystr | Http request | Call step

type_synonym 'a io = "effect list \<times> (exn + 'a)"

definition ret :: "'a \<Rightarrow> 'a io" where
  "ret x = ([], Inr x)"

definition raise :: "exn \<Rightarrow> 'a io" where
  "raise e = ([], Inl e)"

definition lift :: "exn + 'a \<Rightarrow> 'a io" where
  "lift r = ([], r)"

definition emit :: "effect \<Rightarrow> unit io" where
  "emit e = ([e], Inr ())"

text \<open>Sequencing: an exception ends the run of the rest.\<close>

definition bind_io :: "'a io \<Rightarrow> ('a \<Rightarrow> 'b io) \<Rightarrow> 'b io" where
  "bind_io m f =
     (case m of
        (t, Inl e) \<Rightarrow> (t, Inl e)
      | (t, Inr x) \<Rightarrow> (case f x of (t', r) \<Rightarrow> (t @ t', r)))"

text \<open>\<^verbatim>\<open>try: m except DeploymentFailure as e: h(str(e))\<close>; other exceptions pass.\<close>

definition try_except :: "'a io \<Rightarrow> (pystr \<Rightarrow> 'a io) \<Rightarrow> 'a io" where
  "try_except m h =
     (case m of
        (t, Inl (DeploymentFailure e)) \<Rightarrow> (case h e of (t', r) \<Rightarrow> (t @ t', r))
      | (t, r) \<Rightarrow> (t, r))"

text \<open>The world outside: environment variables, JSON files, and the HTTP server.\<close>

datatype file_content = No_file | Not_json | Json_file json

text \<open>\<^verbatim>\<open>json.load(open(path))\<close>.\<close>

definition load_json :: "(string \<Rightarrow> file_content) \<Rightarrow> string \<Rightarrow> json io" where
  "load_json fs path =
     (case fs path of
        No_file \<Rightarrow> raise OSError
      | Not_json \<Rightarrow> raise JSONDecodeError
      | Json_file v \<Rightarrow> ret v)"

text \<open>
  \<^verbatim>\<open>requests.get\<close> and \<^verbatim>\<open>requests.post\<close>: the request is recorded; the server
  answers, or the transport fails (\<open>None\<close>).
\<close>

definition send :: "(request \<Rightarrow> response option) \<Rightarrow> request \<Rightarrow> response io" where
  "send http rq =
     bind_io (emit (Http rq)) (\<lambda>_.
       case http rq of None \<Rightarrow> raise RequestException | Some rs \<Rightarrow> ret rs)"

text \<open>\<^verbatim>\<open>Response.raise_for_status()\<close> and \<^verbatim>\<open>Response.json()\<close>.\<close>

definition raise_for_status :: "response \<Rightarrow> unit io" where
  "raise_for_status rs =
     (if 400 \<le> status_code rs \<and> status_code rs < 600 then raise HTTPError else ret ())"

definition response_json :: "response \<Rightarrow> json io" where
  "response_json rs = (case resp_json rs of None \<Rightarrow> raise JSONDecodeError | Some v \<Rightarrow> ret v)"

section \<open>The program\<close>

text \<open>The globals \<^verbatim>\<open>CONFIG\<close> (lines 207-217) and \<^verbatim>\<open>BASE_GH_REQUEST_HEADERS\<close>.\<close>

record config =
  trigger :: string
  env_file :: "string option"
  allow_draft :: bool
  ignore_status_checks :: bool
  comment :: bool

definition py_print :: "pystr \<Rightarrow> unit io" where
  "py_print msg = emit (Print msg)"

definition debug :: "pystr \<Rightarrow> unit io" where
  "debug msg = py_print (Lit ''::debug::'' # msg)"

definition error :: "pystr \<Rightarrow> unit io" where
  "error msg = py_print (Lit ''::error ::'' # msg)"

definition add_comment ::
  "config \<Rightarrow> (string \<times> string) list \<Rightarrow> (request \<Rightarrow> response option) \<Rightarrow>
   json \<Rightarrow> pystr \<Rightarrow> bool \<Rightarrow> unit io" where
  "add_comment c hdrs http url msg is_error =
     bind_io (emit (Call Add_comment)) (\<lambda>_.
     bind_io (debug (Lit ''Add comment to '' # fmt url)) (\<lambda>_.
     bind_io (if is_error then error msg else py_print msg) (\<lambda>_.
     if comment c then
       bind_io (send http \<lparr>req_verb = POST, req_url = fmt url, req_headers = hdrs,
                           req_json = Some [(''body'', PStr msg)]\<rparr>) (\<lambda>comment_resp.
       bind_io (debug [Lit ''Response: '', Lit (resp_text comment_resp)]) (\<lambda>_.
       raise_for_status comment_resp))
     else ret ())))"

definition parse_message :: "config \<Rightarrow> json \<Rightarrow> string io" where
  "parse_message c comment_obj =
     bind_io (emit (Call Parse_message)) (\<lambda>_.
     bind_io (debug [Lit ''Parse comment'']) (\<lambda>_.
     bind_io (lift (subscript comment_obj ''body'')) (\<lambda>message.
     bind_io (lift (subscript comment_obj ''user'')) (\<lambda>user.
     bind_io (lift (subscript user ''login'')) (\<lambda>author.
     case message of
       JStr body \<Rightarrow>
         if \<not> startswith body (trigger c) then
           bind_io (py_print (Lit ''Comment from '' # fmt author @
                      [Lit '' does not match the comment trigger (`'', Lit (trigger c),
                       Lit ''`).''])) (\<lambda>_.
           raise (SystemExit 0))
         else
           let environment = strip (drop (length (trigger c)) body) in
           if environment = [] then
             raise (DeploymentFailure
               [Lit ''No environment specified (usage: `'', Lit (trigger c),
                Lit '' environment`).''])
           else ret environment
     | _ \<Rightarrow> raise AttributeError)))))"

text \<open>
  The loop of \<^verbatim>\<open>get_environment\<close> (lines 64-68) over the records still to visit:
  \<open>Some env\<close> is \<^verbatim>\<open>return env\<close>, \<open>None\<close> is the end of the loop.
\<close>

fun find_environment :: "string \<Rightarrow> json list \<Rightarrow> json option io" where
  "find_environment environment [] = ret None"
| "find_environment environment (env # envs) =
     bind_io (lift (subscript env ''name'')) (\<lambda>name.
     bind_io (debug (Lit ''Checking environment '' # fmt name)) (\<lambda>_.
     if name = JStr environment then ret (Some env)
     else find_environment environment envs))"

definition get_environment ::
  "config \<Rightarrow> (string \<Rightarrow> file_content) \<Rightarrow> string \<Rightarrow> json io" where
  "get_environment c fs environment =
     bind_io (emit (Call Get_environment)) (\<lambda>_.
     case env_file c of
       None \<Rightarrow> ret (JObj [(''name'', JStr environment)])
     | Some path \<Rightarrow>
         if path = [] then ret (JObj [(''name'', JStr environment)])
         else
           bind_io (debug [Lit ''Get environment'']) (\<lambda>_.
           bind_io (load_json fs path) (\<lambda>envs.
           bind_io (debug [Lit ''Loaded environment validation file'']) (\<lambda>_.
           bind_io (lift (iterate envs)) (\<lambda>records.
           bind_io (find_environment environment records) (\<lambda>found.
           case found of
             Some env \<Rightarrow> ret env
           | None \<Rightarrow>
               raise (DeploymentFailure
                 [Lit (''Environment '' @ [CHR 0x27]), Lit environment,
                  Lit (CHR 0x27 # '' doesn't exist in CONFIG['env_file'] (''), Lit path,
                  Lit '').''])))))))"

text \<open>
  \<^verbatim>\<open>CONFIG["pr_url"]\<close> (lines 77 and 230): the dict of lines 207-217 has the five keys
  of \<^typ>\<open>config\<close> and the program never adds one, so the lookup raises.
\<close>

definition config_pr_url :: "config \<Rightarrow> json io" where
  "config_pr_url c = raise (KeyError ''pr_url'')"

text \<open>\<^verbatim>\<open>{**d, k: v}\<close> and \<^verbatim>\<open>d[k] = v\<close>: a new key goes last.\<close>

fun dict_set :: "'k \<Rightarrow> 'v \<Rightarrow> ('k \<times> 'v) list \<Rightarrow> ('k \<times> 'v) list" where
  "dict_set k v [] = [(k, v)]"
| "dict_set k v (kv # kvs) = (if fst kv = k then (k, v) # kvs else kv # dict_set k v kvs)"

definition load_pr ::
  "config \<Rightarrow> (string \<times> string) list \<Rightarrow> (request \<Rightarrow> response option) \<Rightarrow> json \<Rightarrow> json io" where
  "load_pr c hdrs http url =
     bind_io (emit (Call Load_pr)) (\<lambda>_.
     bind_io (debug [Lit ''Requesting PR details'']) (\<lambda>_.
     bind_io (config_pr_url c) (\<lambda>pr_url.
     bind_io (send http \<lparr>req_verb = GET, req_url = fmt pr_url,
                req_headers = dict_set ''Accept''
                  ''application/vnd.github.shadow-cat-preview+json, application/vnd.github.sailor-v-preview+json''
                  hdrs,
                req_json = None\<rparr>) (\<lambda>pr_resp.
     bind_io (debug [Lit ''Response: '', Lit (resp_text pr_resp)]) (\<lambda>_.
     bind_io (raise_for_status pr_resp) (\<lambda>_.
     response_json pr_resp))))))"

text \<open>The list comprehension of line 101: one line for each element, in order.\<close>

fun failed_lines :: "json list \<Rightarrow> exn + pystr list" where
  "failed_lines [] = Inr []"
| "failed_lines (s # ss) =
     (case subscript s ''context'' of
        Inl e \<Rightarrow> Inl e
      | Inr ctx \<Rightarrow>
          (case failed_lines ss of
             Inl e \<Rightarrow> Inl e
           | Inr ls \<Rightarrow> Inr ((Lit ''* '' # fmt ctx) # ls)))"

definition check_commit ::
  "config \<Rightarrow> (string \<times> string) list \<Rightarrow> (request \<Rightarrow> response option) \<Rightarrow>
   json \<Rightarrow> json \<Rightarrow> unit io" where
  "check_commit c hdrs http head_repo sha =
     bind_io (emit (Call Check_commit)) (\<lambda>_.
     if ignore_status_checks c then ret ()
     else
       bind_io (debug (Lit ''Checking commit status of '' # fmt head_repo @
                  Lit ''#'' # fmt sha)) (\<lambda>_.
       let status_url = Lit ''https://api.github.com/repos/'' # fmt head_repo @
                          Lit ''/commits/'' # fmt sha @ [Lit ''/status''] in
       bind_io (send http \<lparr>req_verb = GET, req_url = status_url, req_headers = hdrs,
                  req_json = None\<rparr>) (\<lambda>status_resp.
       bind_io (debug [Lit ''Response: '', Lit (resp_text status_resp)]) (\<lambda>_.
       bind_io (raise_for_status status_resp) (\<lambda>_.
       bind_io (response_json status_resp) (\<lambda>status.
       bind_io (lift (subscript status ''state'')) (\<lambda>state.
       if state \<noteq> JStr ''success'' then
         bind_io (debug (Lit ''Commit status is '' # fmt state)) (\<lambda>_.
         bind_io (lift (subscript status ''statuses'')) (\<lambda>statuses.
         bind_io (lift (iterate statuses)) (\<lambda>elems.
         bind_io (lift (failed_lines elems)) (\<lambda>ls.
         raise (DeploymentFailure
           (Lit ''The following status checks are not green for '' # fmt sha @
            Lit '':\<newline>'' # join [Lit ''\<newline>''] ls @ [Lit ''.'']))))))
       else ret ())))))))"

definition set_deployment_outputs :: "response \<Rightarrow> unit io" where
  "set_deployment_outputs deployment_response =
     bind_io (response_json deployment_response) (\<lambda>deployment.
     bind_io (lift (subscript deployment ''id'')) (\<lambda>id.
     bind_io (lift (subscript deployment ''url'')) (\<lambda>api_url.
     bind_io (py_print (Lit ''::set-output name=deployment_id::'' # fmt id)) (\<lambda>_.
     py_print (Lit ''::set-output name=deployment_api_url::'' # fmt api_url)))))"

text \<open>The \<^verbatim>\<open>params\<close> dict of lines 116-124.\<close>

definition deployment_params ::
  "config \<Rightarrow> json \<Rightarrow> json \<Rightarrow> pystr \<Rightarrow> json \<Rightarrow> json \<Rightarrow> (string \<times> pyval) list" where
  "deployment_params c ref name description transient production =
     (let params = [(''ref'', PJson ref),
                    (''environment'', PJson name),
                    (''description'', PStr description),
                    (''transient_environment'', PJson transient),
                    (''production_environment'', PJson production)]
      in if ignore_status_checks c
         then dict_set ''required_contexts'' (PJson (JArr [])) params
         else params)"

text \<open>\<^verbatim>\<open>try: m except: h\<close>, the handler for every exception.\<close>

definition try_except_all :: "'a io \<Rightarrow> 'a io \<Rightarrow> 'a io" where
  "try_except_all m h =
     (case m of
        (t, Inl e) \<Rightarrow> (case h of (t', r) \<Rightarrow> (t @ t', r))
      | (t, Inr x) \<Rightarrow> (t, Inr x))"

definition trigger_deployment ::
  "config \<Rightarrow> (string \<times> string) list \<Rightarrow> (request \<Rightarrow> response option) \<Rightarrow>
   json \<Rightarrow> json \<Rightarrow> json \<Rightarrow> pystr \<Rightarrow> unit io" where
  "trigger_deployment c hdrs http head_repo ref environment description =
     bind_io (emit (Call Trigger_deployment)) (\<lambda>_.
     let url = Lit ''https://api.github.com/repos/'' # fmt head_repo @ [Lit ''/deployments''] in
     bind_io (debug (Lit ''Triggering a deployment for '' # fmt head_repo @ Lit ''#'' # fmt ref @
                Lit '' to '' # fmt environment @ Lit '' with URL '' # url)) (\<lambda>_.
     bind_io (lift (get_default environment ''transient'' (JBool False))) (\<lambda>transient.
     bind_io (lift (get_default environment ''production'' (JBool True))) (\<lambda>production.
     bind_io (lift (subscript environment ''name'')) (\<lambda>name.
     bind_io (send http \<lparr>req_verb = POST, req_url = url,
                req_headers = dict_set ''Accept'' ''application/vnd.github.ant-man-preview+json'' hdrs,
                req_json = Some (deployment_params c ref name description transient production)\<rparr>)
       (\<lambda>trigger_resp.
     bind_io (debug [Lit ''Response: '', Lit (resp_text trigger_resp)]) (\<lambda>_.
     bind_io (try_except_all (raise_for_status trigger_resp)
                (raise (DeploymentFailure
                   [Lit ''Failed to trigger deployment ('', Lit (resp_text trigger_resp),
                    Lit '')'']))) (\<lambda>_.
     set_deployment_outputs trigger_resp))))))))"

definition validate_pr :: "config \<Rightarrow> json \<Rightarrow> unit io" where
  "validate_pr c pr =
     bind_io (emit (Call Validate_pr)) (\<lambda>_.
     bind_io (lift (subscript pr ''draft'')) (\<lambda>draft.
     if truthy draft \<and> \<not> allow_draft c then
       raise (DeploymentFailure [Lit ''Can't deploy draft PRs.''])
     else
       bind_io (lift (subscript pr ''merged'')) (\<lambda>merged.
       bind_io (if truthy merged then ret merged
                else lift (subscript pr ''merged_by'')) (\<lambda>merged_or_merged_by.
       if truthy merged_or_merged_by then
         raise (DeploymentFailure [Lit ''Can't deploy a merged PR.''])
       else
         bind_io (lift (subscript pr ''state'')) (\<lambda>state.
         if state \<noteq> JStr ''open'' then
           raise (DeploymentFailure [Lit ''Can't deploy a PR which isn't open.''])
         else
           bind_io (lift (subscript pr ''mergeable_state'')) (\<lambda>mergeable_state.
           if mergeable_state \<noteq> JStr ''mergeable'' then
             if mergeable_state = JStr ''draft'' \<and> allow_draft c then ret ()
             else raise (DeploymentFailure
                           [Lit ''PR can't be cleanly merged with base branch.''])
           else ret ()))))))"

definition validate_event :: "json \<Rightarrow> unit io" where
  "validate_event event =
     bind_io (emit (Call Validate_event)) (\<lambda>_.
     bind_io (lift (get_default event ''issue'' JNull)) (\<lambda>issue.
     if \<not> truthy issue then
       bind_io (error [Lit ''This event doesn't seem to be an issue comment.'']) (\<lambda>_.
       raise (SystemExit 1))
     else
       bind_io (lift (subscript event ''action'')) (\<lambda>action.
       if action \<noteq> JStr ''created'' then
         bind_io (py_print [Lit ''This is not a comment creation, ignoring.'']) (\<lambda>_.
         raise (SystemExit 0))
       else
         bind_io (lift (get_default event ''issue'' JNull)) (\<lambda>issue'.
         bind_io (lift (get_default issue' ''pull_request'' JNull)) (\<lambda>pull_request.
         if \<not> truthy pull_request then
           bind_io (py_print [Lit ''This is not a pull request comment, ignoring.'']) (\<lambda>_.
           raise (SystemExit 0))
         else ret ())))))"

definition react_to_original_comment ::
  "(string \<times> string) list \<Rightarrow> (request \<Rightarrow> response option) \<Rightarrow> json \<Rightarrow> unit io" where
  "react_to_original_comment hdrs http event =
     bind_io (emit (Call React_to_original_comment)) (\<lambda>_.
     bind_io (debug [Lit ''Adding reaction to original comment'']) (\<lambda>_.
     bind_io (lift (subscript event ''comment'')) (\<lambda>comment_obj.
     bind_io (lift (subscript comment_obj ''url'')) (\<lambda>comment_url.
     let reaction_url = fmt comment_url @ [Lit ''/reactions''] in
     bind_io (send http \<lparr>req_verb = POST, req_url = reaction_url,
                req_headers = dict_set ''Accept'' ''application/vnd.github.squirrel-girl-preview+json'' hdrs,
                req_json = Some [(''content'', PJson (JStr ''rocket''))]\<rparr>) (\<lambda>reaction_resp.
     bind_io (debug [Lit ''Response: '', Lit (resp_text reaction_resp)]) (\<lambda>_.
     raise_for_status reaction_resp))))))"

subsection \<open>The script body (lines 195-270)\<close>

text \<open>Lines 238-243: the first \<^verbatim>\<open>try\<close> block and its handler.\<close>

definition first_try ::
  "config \<Rightarrow> (string \<times> string) list \<Rightarrow> (request \<Rightarrow> response option) \<Rightarrow>
   json \<Rightarrow> json \<Rightarrow> string io" where
  "first_try c hdrs http event pr =
     try_except
       (bind_io (validate_pr c pr) (\<lambda>_.
        bind_io (lift (subscript event ''comment'')) (\<lambda>comment_obj.
        parse_message c comment_obj)))
       (\<lambda>e.
        bind_io (lift (subscript pr ''comments_url'')) (\<lambda>comments_url.
        bind_io (add_comment c hdrs http comments_url (Lit ''Deployment failed: '' # e) True) (\<lambda>_.
        raise (SystemExit 1))))"

text \<open>Lines 245-260: the second \<^verbatim>\<open>try\<close> block and its handler.\<close>

definition second_try ::
  "config \<Rightarrow> (string \<times> string) list \<Rightarrow> (string \<Rightarrow> file_content) \<Rightarrow>
   (request \<Rightarrow> response option) \<Rightarrow> json \<Rightarrow> json \<Rightarrow> json \<Rightarrow> json \<Rightarrow> string \<Rightarrow> unit io" where
  "second_try c hdrs fs http pr head_repo sha pr_num environment_name =
     try_except
       (bind_io (get_environment c fs environment_name) (\<lambda>environment.
        bind_io (check_commit c hdrs http head_repo sha) (\<lambda>_.
        trigger_deployment c hdrs http head_repo sha environment
          (Lit ''Automatic deployment from #'' # fmt pr_num))))
       (\<lambda>e.
        bind_io (lift (subscript pr ''comments_url'')) (\<lambda>comments_url.
        bind_io (add_comment c hdrs http comments_url
                   (Lit ''Deployment to '' # Lit environment_name # Lit '' failed: '' # e) True) (\<lambda>_.
        raise (SystemExit 1))))"

text \<open>Lines 261-268: the \<^verbatim>\<open>else\<close> branch of the second \<^verbatim>\<open>try\<close>.\<close>

definition on_success ::
  "config \<Rightarrow> (string \<times> string) list \<Rightarrow> (request \<Rightarrow> response option) \<Rightarrow>
   json \<Rightarrow> json \<Rightarrow> json \<Rightarrow> string \<Rightarrow> unit io" where
  "on_success c hdrs http event pr head_repo environment_name =
     bind_io (react_to_original_comment hdrs http event) (\<lambda>_.
     bind_io (lift (subscript event ''comment'')) (\<lambda>comment_obj.
     bind_io (lift (subscript comment_obj ''user'')) (\<lambda>user.
     bind_io (lift (subscript user ''login'')) (\<lambda>comment_author.
     bind_io (lift (subscript pr ''comments_url'')) (\<lambda>comments_url.
     add_comment c hdrs http comments_url
       (Lit ''@'' # fmt comment_author @
        Lit '': Triggered [deployment](https://github.com/'' # fmt head_repo @
        [Lit ''/deployments) to '', Lit environment_name, Lit ''.''])
       False)))))"

text \<open>Lines 231-270: the run from the loaded pull request \<open>pr\<close> on.\<close>

definition deploy ::
  "config \<Rightarrow> (string \<times> string) list \<Rightarrow> (string \<Rightarrow> file_content) \<Rightarrow>
   (request \<Rightarrow> response option) \<Rightarrow> json \<Rightarrow> json \<Rightarrow> unit io" where
  "deploy c hdrs fs http event pr =
     bind_io (debug [Lit ''Loaded PR details: '', Dumps pr]) (\<lambda>_.
     bind_io (lift (subscript pr ''head'')) (\<lambda>head.
     bind_io (lift (subscript head ''sha'')) (\<lambda>sha.
     bind_io (lift (subscript pr ''head'')) (\<lambda>head'.
     bind_io (lift (subscript head' ''repo'')) (\<lambda>repo.
     bind_io (lift (subscript repo ''full_name'')) (\<lambda>head_repo.
     bind_io (lift (subscript pr ''number'')) (\<lambda>pr_num.
     bind_io (first_try c hdrs http event pr) (\<lambda>environment_name.
     bind_io (second_try c hdrs fs http pr head_repo sha pr_num environment_name) (\<lambda>_.
     bind_io (on_success c hdrs http event pr head_repo environment_name) (\<lambda>_.
     debug [Lit ''Finished.'']))))))))))"

text \<open>\<^verbatim>\<open>os.environ[k]\<close> and \<^verbatim>\<open>os.environ.get(k, d)\<close>.\<close>

definition environ :: "(string \<Rightarrow> string option) \<Rightarrow> string \<Rightarrow> exn + string" where
  "environ env k = (case env k of None \<Rightarrow> Inl (KeyError k) | Some v \<Rightarrow> Inr v)"

definition environ_get :: "(string \<Rightarrow> string option) \<Rightarrow> string \<Rightarrow> string \<Rightarrow> string" where
  "environ_get env k d = (case env k of None \<Rightarrow> d | Some v \<Rightarrow> v)"

text \<open>Lines 207-217.\<close>

definition load_config :: "(string \<Rightarrow> string option) \<Rightarrow> config" where
  "load_config env =
     \<lparr>trigger = environ_get env ''INPUT_TRIGGER_PHRASE'' ''deploy to'',
      env_file = env ''INPUT_ENVIRONMENT_VALIDATION_FILE'',
      allow_draft = (lower (environ_get env ''INPUT_ALLOW_DRAFT_DEPLOY'' ''false'') = ''true''),
      ignore_status_checks =
        (lower (environ_get env ''INPUT_IGNORE_STATUS_CHECKS'' ''false'') = ''true''),
      comment = (lower (environ_get env ''INPUT_COMMENT'' ''true'') = ''true'')\<rparr>"

text \<open>\<^verbatim>\<open>CONFIG\<close> as the value \<^verbatim>\<open>json.dumps\<close> is given on line 218.\<close>

definition config_json :: "config \<Rightarrow> json" where
  "config_json c =
     JObj [(''trigger'', JStr (trigger c)),
           (''env_file'', (case env_file c of None \<Rightarrow> JNull | Some path \<Rightarrow> JStr path)),
           (''allow_draft'', JBool (allow_draft c)),
           (''ignore_status_checks'', JBool (ignore_status_checks c)),
           (''comment'', JBool (comment c))]"

definition main ::
  "(string \<Rightarrow> string option) \<Rightarrow> (string \<Rightarrow> file_content) \<Rightarrow>
   (request \<Rightarrow> response option) \<Rightarrow> unit io" where
  "main env fs http =
     (if env ''GITHUB_ACTION'' = None then
        bind_io (error [Lit ''Missing GITHUB_TOKEN environment variable. (hint: `env: GITHUB_TOKEN: ${{ secrets.GITHUB_TOKEN }}`)'']) (\<lambda>_.
        raise (SystemExit 1))
      else
        bind_io (lift (environ env ''GITHUB_TOKEN'')) (\<lambda>GITHUB_TOKEN.
        bind_io (lift (environ env ''GITHUB_EVENT_PATH'')) (\<lambda>GITHUB_EVENT_PATH.
        bind_io (debug [Lit ''Loaded environment'']) (\<lambda>_.
        let c = load_config env in
        bind_io (debug [Lit ''Config: '', Dumps (config_json c)]) (\<lambda>_.
        let hdrs = [(''Authorization'', ''Bearer '' @ GITHUB_TOKEN),
                    (''Content-Type'', ''application/json'')] in
        bind_io (load_json fs GITHUB_EVENT_PATH) (\<lambda>event.
        bind_io (debug [Lit ''Loaded event JSON: '', Dumps event]) (\<lambda>_.
        bind_io (validate_event event) (\<lambda>_.
        bind_io (config_pr_url c) (\<lambda>pr_url.
        bind_io (load_pr c hdrs http pr_url) (\<lambda>pr.
        deploy c hdrs fs http event pr))))))))))"

text \<open>
  The exit status of the process: 0 at the end of the script, the argument of
  \<^verbatim>\<open>sys.exit\<close>, and 1 for an exception that nothing catches.
\<close>

fun exit_status :: "exn + unit \<Rightarrow> nat" where
  "exit_status (Inr u) = 0"
| "exit_status (Inl (SystemExit n)) = n"
| "exit_status (Inl e) = 1"

section \<open>Reading a trace\<close>

fun calls :: "effect list \<Rightarrow> step list" where
  "calls [] = []"
| "calls (Call s # t) = s # calls t"
| "calls (e # t) = calls t"

fun requests :: "effect list \<Rightarrow> request list" where
  "requests [] = []"
| "requests (Http rq # t) = rq # requests t"
| "requests (e # t) = requests t"

fun printed :: "effect list \<Rightarrow> pystr list" where
  "printed [] = []"
| "printed (Print l # t) = l # printed t"
| "printed (e # t) = printed t"



definition in_order :: "(step \<Rightarrow> nat) \<Rightarrow> step list \<Rightarrow> bool" where
  "in_order rank steps = sorted_wrt (\<lambda>a b. rank a \<le> rank b) steps"

section \<open>Example inputs\<close>

text \<open>
  The configuration when no input is set, a comment event on pull request 7 with a given
  body, the pull request (open, mergeable, draft or not), and a server that answers every
  request with status 200 and a green combined status.
\<close>

definition example_config :: config where
  "example_config =
     \<lparr>trigger = ''deploy to'', env_file = None, allow_draft = False,
      ignore_status_checks = False, comment = True\<rparr>"



definition example_http :: "request \<Rightarrow> response option" where
  "example_http rq =
     Some \<lparr>status_code = 200, resp_text = ''{}'',
           resp_json = Some (JObj [(''state'', JStr ''success''), (''id'', JNum 1),
                                   (''url'', JStr ''https://api.github.com/repos/octo/repo/deployments/1'')])\<rparr>"

text \<open>
  A combined status that is not green although one of its two checks is, and the
  allowlist of two environments of the specification's examples.
\<close>

definition example_status :: json where
  "example_status =
     JObj [(''state'', JStr ''failure''),
           (''statuses'',
            JArr [JObj [(''context'', JStr ''ci/build''), (''state'', JStr ''success'')],
                  JObj [(''context'', JStr ''ci/test''), (''state'', JStr ''failure'')]])]"

definition example_allowlist :: json where
  "example_allowlist =
     JArr [JObj [(''name'', JStr ''staging'')],
           JObj [(''name'', JStr ''prod''), (''production'', JBool True)]]"

section \<open>Sequencing lemmas\<close>

lemma bind_io_ret: "bind_io (ret x) f = f x"
  by (simp add: bind_io_def ret_def split: prod.splits)

lemma bind_io_raise: "bind_io (raise e) f = raise e"
  by (simp add: bind_io_def raise_def)

lemma bind_io_lift_Inr: "bind_io (lift (Inr x)) f = f x"
  by (simp add: bind_io_def lift_def split: prod.splits)

lemma bind_io_lift_Inl: "bind_io (lift (Inl e)) f = raise e"
  by (simp add: bind_io_def lift_def raise_def)

lemma bind_io_emit: "bind_io (emit e) f = (e # fst (f ()), snd (f ()))"
  by (simp add: bind_io_def emit_def split: prod.splits)

lemma bind_io_print: "bind_io (py_print l) f = (Print l # fst (f ()), snd (f ()))"
  by (simp add: py_print_def bind_io_emit)

lemma bind_io_debug:
  "bind_io (debug l) f = (Print (Lit ''::debug::'' # l) # fst (f ()), snd (f ()))"
  by (simp add: debug_def bind_io_print)

lemma bind_io_error:
  "bind_io (error l) f = (Print (Lit ''::error ::'' # l) # fst (f ()), snd (f ()))"
  by (simp add: error_def bind_io_print)

lemma snd_raise: "snd (raise e) = Inl e"
  by (simp add: raise_def)

lemma fst_raise: "fst (raise e) = []"
  by (simp add: raise_def)

lemma snd_ret: "snd (ret x) = Inr x"
  by (simp add: ret_def)

lemma fst_ret: "fst (ret x) = []"
  by (simp add: ret_def)

lemmas io_simps =
  bind_io_ret bind_io_raise bind_io_lift_Inr bind_io_lift_Inl bind_io_emit
  bind_io_print bind_io_debug bind_io_error snd_raise fst_raise snd_ret fst_ret

lemma bind_io_pair:
  "bind_io (t, r) f = (case r of Inl e \<Rightarrow> (t, Inl e) | Inr x \<Rightarrow> (t @ fst (f x), snd (f x)))"
  by (simp add: bind_io_def split: sum.splits prod.splits)

lemma bind_io_eta:
  "bind_io m f = (case snd m of Inl e \<Rightarrow> (fst m, Inl e) | Inr x \<Rightarrow> (fst m @ fst (f x), snd (f x)))"
  by (cases m) (simp add: bind_io_pair split: sum.splits)

lemma bind_io_send:
  "bind_io (send http rq) f =
     (case http rq of
        None \<Rightarrow> ([Http rq], Inl RequestException)
      | Some rs \<Rightarrow> (Http rq # fst (f rs), snd (f rs)))"
  by (simp add: send_def bind_io_def emit_def ret_def raise_def split: prod.splits option.splits)

lemma raise_for_status_ok:
  "\<not> (400 \<le> status_code rs \<and> status_code rs < 600) \<Longrightarrow> raise_for_status rs = ret ()"
  by (auto simp: raise_for_status_def)

lemma response_json_Some: "resp_json rs = Some v \<Longrightarrow> response_json rs = ret v"
  by (simp add: response_json_def)

lemma fst_bind_io:
  "fst (bind_io m f) = fst m @ (case snd m of Inl e \<Rightarrow> [] | Inr x \<Rightarrow> fst (f x))"
  by (cases m) (simp add: bind_io_pair split: sum.splits)

lemma snd_bind_io:
  "snd (bind_io m f) = (case snd m of Inl e \<Rightarrow> Inl e | Inr x \<Rightarrow> snd (f x))"
  by (cases m) (simp add: bind_io_pair split: sum.splits)



lemma fst_try_except_all:
  "fst (try_except_all m h) = fst m @ (case snd m of Inl e \<Rightarrow> fst h | Inr x \<Rightarrow> [])"
  by (cases m) (simp add: try_except_all_def split: sum.splits prod.splits)

subsection \<open>Reading the trace of a sequence\<close>

lemma calls_append: "calls (a @ b) = calls a @ calls b"
  by (induction a rule: calls.induct) simp_all

lemma requests_append: "requests (a @ b) = requests a @ requests b"
  by (induction a rule: requests.induct) simp_all

lemma fst_lift: "fst (lift r) = []" and snd_lift: "snd (lift r) = r"
  by (simp_all add: lift_def)

lemma fst_emit: "fst (emit e) = [e]" and snd_emit: "snd (emit e) = Inr ()"
  by (simp_all add: emit_def)

lemma fst_debug: "fst (debug l) = [Print (Lit ''::debug::'' # l)]" and snd_debug: "snd (debug l) = Inr ()"
  by (simp_all add: debug_def py_print_def emit_def)

lemma fst_error: "fst (error l) = [Print (Lit ''::error ::'' # l)]" and snd_error: "snd (error l) = Inr ()"
  by (simp_all add: error_def py_print_def emit_def)

lemma fst_py_print: "fst (py_print l) = [Print l]" and snd_py_print: "snd (py_print l) = Inr ()"
  by (simp_all add: py_print_def emit_def)

lemma fst_send: "fst (send http rq) = [Http rq]"
  by (simp add: send_def fst_bind_io fst_emit snd_emit fst_raise fst_ret split: option.splits)

lemma fst_raise_for_status: "fst (raise_for_status rs) = []"
  by (simp add: raise_for_status_def fst_raise fst_ret)

lemma fst_response_json: "fst (response_json rs) = []"
  by (simp add: response_json_def fst_raise fst_ret split: option.splits)

lemmas trace_simps = fst_bind_io snd_bind_io fst_lift snd_lift fst_emit snd_emit fst_debug snd_debug
  fst_error snd_error fst_py_print snd_py_print fst_send fst_raise_for_status fst_response_json
  fst_raise snd_raise fst_ret snd_ret calls_append requests_append















lemma requests_set_deployment_outputs: "requests (fst (set_deployment_outputs rs)) = []"
  by (simp add: set_deployment_outputs_def trace_simps split: sum.splits)

text \<open>
  The definitions that a run on a concrete input unfolds.
\<close>

lemmas run_defs =
  bind_io_pair ret_def raise_def lift_def emit_def py_print_def debug_def error_def send_def
  try_except_def try_except_all_def load_json_def raise_for_status_def response_json_def
  add_comment_def parse_message_def get_environment_def config_pr_url_def load_pr_def
  check_commit_def set_deployment_outputs_def deployment_params_def trigger_deployment_def
  validate_pr_def validate_event_def react_to_original_comment_def first_try_def second_try_def
  on_success_def deploy_def environ_def environ_get_def load_config_def config_json_def main_def
  startswith_def strip_def isspace_def lower_def lower_char_def in_order_def Let_def

section \<open>The command parser\<close>

lemma startswith_append: "startswith (p @ r) p"
  by (simp add: startswith_def)

lemma strip_Nil: "strip [] = []"
  by (simp add: strip_def)

lemma strip_nonempty:
  assumes "s \<noteq> []" and "\<not> isspace (hd s)"
  shows "strip s = rev (dropWhile isspace (rev s))" and "strip s \<noteq> []"
proof -
  from assms have d: "dropWhile isspace s = s"
    by (cases s) simp_all
  then show "strip s = rev (dropWhile isspace (rev s))"
    by (simp add: strip_def)
  from assms have "hd s \<in> set (rev s)" by simp
  with assms(2) have "dropWhile isspace (rev s) \<noteq> []"
    by (metis dropWhile_eq_Nil_conv)
  with d show "strip s \<noteq> []"
    by (simp add: strip_def)
qed

text \<open>
  The whole run of \<^const>\<open>parse_message\<close> on a body that starts with the trigger, and on
  one that does not.
\<close>

lemma parse_message_prefix:
  assumes "subscript comment_obj ''body'' = Inr (JStr (trigger c @ rest))"
    and "subscript comment_obj ''user'' = Inr user"
    and "subscript user ''login'' = Inr author"
  shows "parse_message c comment_obj =
           (if strip rest = []
            then ([Call Parse_message, Print [Lit ''::debug::'', Lit ''Parse comment'']],
                  Inl (DeploymentFailure
                   [Lit ''No environment specified (usage: `'', Lit (trigger c),
                    Lit '' environment`).'']))
            else ([Call Parse_message, Print [Lit ''::debug::'', Lit ''Parse comment'']],
                  Inr (strip rest)))"
  using assms
  by (simp add: parse_message_def io_simps startswith_append Let_def)


text \<open>
  C8. When the comment body starts with the trigger phrase, \<^verbatim>\<open>parse_message\<close> returns
  the rest of the body with the whitespace at both ends removed, and it raises
  \<^verbatim>\<open>DeploymentFailure\<close> exactly when that trimmed rest is empty; a body equal to the
  trigger phrase is such a case.
\<close>

theorem parse_message_environment:
  assumes "subscript comment_obj ''body'' = Inr (JStr (trigger c @ rest))"
    and "subscript comment_obj ''user'' = Inr user"
    and "subscript user ''login'' = Inr author"
  shows "snd (parse_message c comment_obj) =
           (if strip rest = []
            then Inl (DeploymentFailure
                   [Lit ''No environment specified (usage: `'', Lit (trigger c),
                    Lit '' environment`).''])
            else Inr (strip rest))
         \<and> ((\<exists>msg. snd (parse_message c comment_obj) = Inl (DeploymentFailure msg))
              = (strip rest = []))
         \<and> (rest = [] \<longrightarrow>
              (\<exists>msg. snd (parse_message c comment_obj) = Inl (DeploymentFailure msg)))"
  by (simp add: parse_message_prefix[OF assms] strip_Nil)

text \<open>
  The theorem at the body \<^verbatim>\<open>deploy to\<close>, which names no environment, and at a body
  whose environment name has spaces around it.
\<close>

theorem parse_message_environment_witness:
  "snd (parse_message \<lparr>trigger = ''deploy to'', env_file = None, allow_draft = False,
                        ignore_status_checks = False, comment = True\<rparr>
         (JObj [(''body'', JStr ''deploy to''), (''user'', JObj [(''login'', JStr ''bob'')])]))
     = Inl (DeploymentFailure
              [Lit ''No environment specified (usage: `'', Lit ''deploy to'',
               Lit '' environment`).''])
   \<and> snd (parse_message \<lparr>trigger = ''deploy to'', env_file = None, allow_draft = False,
                        ignore_status_checks = False, comment = True\<rparr>
         (JObj [(''body'', JStr ''deploy to  staging ''),
                (''user'', JObj [(''login'', JStr ''bob'')])]))
     = Inr ''staging''"
  using parse_message_environment
          [of "JObj [(''body'', JStr ''deploy to''), (''user'', JObj [(''login'', JStr ''bob'')])]"
              "\<lparr>trigger = ''deploy to'', env_file = None, allow_draft = False,
                 ignore_status_checks = False, comment = True\<rparr>" "[]"
              "JObj [(''login'', JStr ''bob'')]" "JStr ''bob''"]
        parse_message_environment
          [of "JObj [(''body'', JStr ''deploy to  staging ''),
                     (''user'', JObj [(''login'', JStr ''bob'')])]"
              "\<lparr>trigger = ''deploy to'', env_file = None, allow_draft = False,
                 ignore_status_checks = False, comment = True\<rparr>" "''  staging ''"
              "JObj [(''login'', JStr ''bob'')]" "JStr ''bob''"]
  by (simp add: strip_def isspace_def)

text \<open>
  C9. The trigger is matched as a plain prefix of the body: whatever follows it, with no
  separator needed, is the command's argument. A body made of the trigger phrase and a
  suffix that begins with a character that is not whitespace is accepted, and the
  environment name is the trimmed suffix, which is not empty; for the trigger
  \<^verbatim>\<open>deploy to\<close> the body \<^verbatim>\<open>deploy toprod\<close> names the environment \<^verbatim>\<open>prod\<close>.
\<close>

theorem trigger_is_plain_prefix:
  assumes "subscript comment_obj ''body'' = Inr (JStr (trigger c @ suffix))"
    and "subscript comment_obj ''user'' = Inr user"
    and "subscript user ''login'' = Inr author"
    and "suffix \<noteq> []" and "\<not> isspace (hd suffix)"
  shows "snd (parse_message c comment_obj) = Inr (strip suffix) \<and> strip suffix \<noteq> []"
  using strip_nonempty(2)[OF assms(4,5)]
  by (simp add: parse_message_prefix[OF assms(1,2,3)])

theorem trigger_is_plain_prefix_witness:
  "snd (parse_message \<lparr>trigger = ''deploy to'', env_file = None, allow_draft = False,
                        ignore_status_checks = False, comment = True\<rparr>
         (JObj [(''body'', JStr ''deploy toprod''), (''user'', JObj [(''login'', JStr ''bob'')])]))
     = Inr ''prod''"
  using trigger_is_plain_prefix
          [of "JObj [(''body'', JStr ''deploy toprod''),
                     (''user'', JObj [(''login'', JStr ''bob'')])]"
              "\<lparr>trigger = ''deploy to'', env_file = None, allow_draft = False,
                 ignore_status_checks = False, comment = True\<rparr>" "''prod''"
              "JObj [(''login'', JStr ''bob'')]" "JStr ''bob''"]
  by (simp add: isspace_def strip_def)

section \<open>The pull request validator\<close>

text \<open>
  The run of \<^const>\<open>validate_pr\<close> on a pull request that has the five fields it reads.
\<close>

lemma validate_pr_run:
  assumes "subscript pr ''draft'' = Inr draft"
    and "subscript pr ''merged'' = Inr merged"
    and "subscript pr ''merged_by'' = Inr merged_by"
    and "subscript pr ''state'' = Inr state"
    and "subscript pr ''mergeable_state'' = Inr mergeable_state"
  shows "validate_pr c pr =
     ([Call Validate_pr],
      if truthy draft \<and> \<not> allow_draft c then
        Inl (DeploymentFailure [Lit ''Can't deploy draft PRs.''])
      else if truthy merged \<or> truthy merged_by then
        Inl (DeploymentFailure [Lit ''Can't deploy a merged PR.''])
      else if state \<noteq> JStr ''open'' then
        Inl (DeploymentFailure [Lit ''Can't deploy a PR which isn't open.''])
      else if mergeable_state \<noteq> JStr ''mergeable''
              \<and> \<not> (mergeable_state = JStr ''draft'' \<and> allow_draft c) then
        Inl (DeploymentFailure [Lit ''PR can't be cleanly merged with base branch.''])
      else Inr ())"
proof -
  have "validate_pr c pr =
     bind_io (emit (Call Validate_pr)) (\<lambda>_.
      if truthy draft \<and> \<not> allow_draft c then
        raise (DeploymentFailure [Lit ''Can't deploy draft PRs.''])
      else if truthy merged \<or> truthy merged_by then
        raise (DeploymentFailure [Lit ''Can't deploy a merged PR.''])
      else if state \<noteq> JStr ''open'' then
        raise (DeploymentFailure [Lit ''Can't deploy a PR which isn't open.''])
      else if mergeable_state \<noteq> JStr ''mergeable''
              \<and> \<not> (mergeable_state = JStr ''draft'' \<and> allow_draft c) then
        raise (DeploymentFailure [Lit ''PR can't be cleanly merged with base branch.''])
      else ret ())"
    using assms
    by (simp add: validate_pr_def bind_io_ret bind_io_raise bind_io_lift_Inr)
  then show ?thesis
    by (simp add: bind_io_emit raise_def ret_def)
qed

text \<open>
  C4. On a pull request record with the fields \<^verbatim>\<open>draft\<close>, \<^verbatim>\<open>merged\<close>,
  \<^verbatim>\<open>merged_by\<close>, \<^verbatim>\<open>state\<close> and \<^verbatim>\<open>mergeable_state\<close>, \<^verbatim>\<open>validate_pr\<close> raises
  \<^verbatim>\<open>DeploymentFailure\<close> exactly when the pull request is a draft and drafts are not
  allowed, or it is merged or has a \<^verbatim>\<open>merged_by\<close>, or its state is not \<^verbatim>\<open>open\<close>, or its
  mergeable state is not \<^verbatim>\<open>mergeable\<close> (unless that state is \<^verbatim>\<open>draft\<close> and drafts are
  allowed). The checks run in this order, and the message is that of the first check
  that fails.
\<close>

theorem validate_pr_checks:
  assumes "subscript pr ''draft'' = Inr draft"
    and "subscript pr ''merged'' = Inr merged"
    and "subscript pr ''merged_by'' = Inr merged_by"
    and "subscript pr ''state'' = Inr state"
    and "subscript pr ''mergeable_state'' = Inr mergeable_state"
  shows "snd (validate_pr c pr) =
     (if truthy draft \<and> \<not> allow_draft c then
        Inl (DeploymentFailure [Lit ''Can't deploy draft PRs.''])
      else if truthy merged \<or> truthy merged_by then
        Inl (DeploymentFailure [Lit ''Can't deploy a merged PR.''])
      else if state \<noteq> JStr ''open'' then
        Inl (DeploymentFailure [Lit ''Can't deploy a PR which isn't open.''])
      else if mergeable_state \<noteq> JStr ''mergeable''
              \<and> \<not> (mergeable_state = JStr ''draft'' \<and> allow_draft c) then
        Inl (DeploymentFailure [Lit ''PR can't be cleanly merged with base branch.''])
      else Inr ())
   \<and> ((\<exists>msg. snd (validate_pr c pr) = Inl (DeploymentFailure msg)) =
        ((truthy draft \<and> \<not> allow_draft c)
         \<or> (truthy merged \<or> truthy merged_by)
         \<or> state \<noteq> JStr ''open''
         \<or> (mergeable_state \<noteq> JStr ''mergeable''
            \<and> \<not> (mergeable_state = JStr ''draft'' \<and> allow_draft c))))"
  by (simp add: validate_pr_run[OF assms])

text \<open>
  The theorem at a pull request that fails all four checks (the message is the first
  check's), at a draft when drafts are allowed, and at a pull request whose only defect is
  its mergeable state.
\<close>

theorem validate_pr_checks_witness:
  "snd (validate_pr \<lparr>trigger = ''deploy to'', env_file = None, allow_draft = False,
                      ignore_status_checks = False, comment = True\<rparr>
         (JObj [(''draft'', JBool True), (''merged'', JBool True), (''merged_by'', JNull),
                (''state'', JStr ''closed''), (''mergeable_state'', JStr ''dirty'')]))
     = Inl (DeploymentFailure [Lit ''Can't deploy draft PRs.''])
   \<and> snd (validate_pr \<lparr>trigger = ''deploy to'', env_file = None, allow_draft = True,
                      ignore_status_checks = False, comment = True\<rparr>
         (JObj [(''draft'', JBool True), (''merged'', JBool False), (''merged_by'', JNull),
                (''state'', JStr ''open''), (''mergeable_state'', JStr ''draft'')]))
     = Inr ()
   \<and> snd (validate_pr \<lparr>trigger = ''deploy to'', env_file = None, allow_draft = False,
                      ignore_status_checks = False, comment = True\<rparr>
         (JObj [(''draft'', JBool False), (''merged'', JBool False), (''merged_by'', JNull),
                (''state'', JStr ''open''), (''mergeable_state'', JStr ''dirty'')]))
     = Inl (DeploymentFailure [Lit ''PR can't be cleanly merged with base branch.''])"
  using validate_pr_checks
          [of "JObj [(''draft'', JBool True), (''merged'', JBool True), (''merged_by'', JNull),
                (''state'', JStr ''closed''), (''mergeable_state'', JStr ''dirty'')]"
              "JBool True" "JBool True" JNull "JStr ''closed''" "JStr ''dirty''"
              "\<lparr>trigger = ''deploy to'', env_file = None, allow_draft = False,
                      ignore_status_checks = False, comment = True\<rparr>"]
        validate_pr_checks
          [of "JObj [(''draft'', JBool True), (''merged'', JBool False), (''merged_by'', JNull),
                (''state'', JStr ''open''), (''mergeable_state'', JStr ''draft'')]"
              "JBool True" "JBool False" JNull "JStr ''open''" "JStr ''draft''"
              "\<lparr>trigger = ''deploy to'', env_file = None, allow_draft = True,
                      ignore_status_checks = False, comment = True\<rparr>"]
        validate_pr_checks
          [of "JObj [(''draft'', JBool False), (''merged'', JBool False), (''merged_by'', JNull),
                (''state'', JStr ''open''), (''mergeable_state'', JStr ''dirty'')]"
              "JBool False" "JBool False" JNull "JStr ''open''" "JStr ''dirty''"
              "\<lparr>trigger = ''deploy to'', env_file = None, allow_draft = False,
                      ignore_status_checks = False, comment = True\<rparr>"]
  by simp

section \<open>The status checker\<close>

lemma failed_lines_all:
  "map (\<lambda>s. subscript s ''context'') subs = map Inr ctxs \<Longrightarrow>
   failed_lines subs = Inr (map (\<lambda>ctx. Lit ''* '' # fmt ctx) ctxs)"
proof (induction subs arbitrary: ctxs)
  case Nil
  then show ?case by simp
next
  case (Cons s subs)
  then obtain ctx rest where c: "ctxs = ctx # rest" by (cases ctxs) auto
  with Cons.prems have "subscript s ''context'' = Inr ctx"
    and "map (\<lambda>s. subscript s ''context'') subs = map Inr rest" by simp_all
  with Cons.IH[of rest] c show ?case by simp
qed

lemma join_has_line: "l \<in> set ls \<Longrightarrow> \<exists>a b. join sep ls = a @ l @ b"
proof (induction sep ls rule: join.induct)
  case (1 sep)
  then show ?case by simp
next
  case (2 sep x)
  then have "join sep [x] = [] @ l @ []" by simp
  then show ?case by blast
next
  case (3 sep x y ys)
  show ?case
  proof (cases "l = x")
    case True
    then have "join sep (x # y # ys) = [] @ l @ (sep @ join sep (y # ys))" by simp
    then show ?thesis by blast
  next
    case False
    with 3 obtain a b where "join sep (y # ys) = a @ l @ b" by auto
    then have "join sep (x # y # ys) = (x @ sep @ a) @ l @ b" by simp
    then show ?thesis by blast
  qed
qed

lemma check_commit_not_green:
  assumes "\<not> ignore_status_checks c"
    and "http \<lparr>req_verb = GET,
               req_url = Lit ''https://api.github.com/repos/'' # fmt head_repo @
                         Lit ''/commits/'' # fmt sha @ [Lit ''/status''],
               req_headers = hdrs, req_json = None\<rparr> = Some rs"
    and "\<not> (400 \<le> status_code rs \<and> status_code rs < 600)"
    and "resp_json rs = Some status"
    and "subscript status ''state'' = Inr state"
    and "state \<noteq> JStr ''success''"
    and "subscript status ''statuses'' = Inr (JArr subs)"
    and "map (\<lambda>s. subscript s ''context'') subs = map Inr ctxs"
  shows "snd (check_commit c hdrs http head_repo sha) =
           Inl (DeploymentFailure
                  (Lit ''The following status checks are not green for '' # fmt sha @
                   Lit '':\<newline>'' #
                   join [Lit ''\<newline>''] (map (\<lambda>ctx. Lit ''* '' # fmt ctx) ctxs) @ [Lit ''.'']))"
  using assms(1,2,5,6,7) failed_lines_all[OF assms(8)]
  by (simp add: check_commit_def io_simps bind_io_send
        raise_for_status_ok[OF assms(3)] response_json_Some[OF assms(4)] Let_def)

text \<open>
  C5. When status checks are not ignored and the combined status has a state other than
  \<^verbatim>\<open>success\<close>, \<^verbatim>\<open>check_commit\<close> raises \<^verbatim>\<open>DeploymentFailure\<close>, and its message has one
  line \<^verbatim>\<open>* context\<close> for every sub-status of the combined status, in their order: the
  state of a sub-status is never read, so the green ones are listed with the others.
\<close>

theorem check_commit_lists_every_status:
  assumes "\<not> ignore_status_checks c"
    and "http \<lparr>req_verb = GET,
               req_url = Lit ''https://api.github.com/repos/'' # fmt head_repo @
                         Lit ''/commits/'' # fmt sha @ [Lit ''/status''],
               req_headers = hdrs, req_json = None\<rparr> = Some rs"
    and "\<not> (400 \<le> status_code rs \<and> status_code rs < 600)"
    and "resp_json rs = Some status"
    and "subscript status ''state'' = Inr state"
    and "state \<noteq> JStr ''success''"
    and "subscript status ''statuses'' = Inr (JArr subs)"
    and "map (\<lambda>s. subscript s ''context'') subs = map Inr ctxs"
  shows "\<exists>msg. snd (check_commit c hdrs http head_repo sha) = Inl (DeploymentFailure msg)
           \<and> msg = Lit ''The following status checks are not green for '' # fmt sha @
                   Lit '':\<newline>'' #
                   join [Lit ''\<newline>''] (map (\<lambda>ctx. Lit ''* '' # fmt ctx) ctxs) @ [Lit ''.'']
           \<and> (\<forall>ctx\<in>set ctxs. \<exists>a b. msg = a @ (Lit ''* '' # fmt ctx) @ b)"
proof -
  let ?ls = "map (\<lambda>ctx. Lit ''* '' # fmt ctx) ctxs"
  let ?msg = "Lit ''The following status checks are not green for '' # fmt sha @
                Lit '':\<newline>'' # join [Lit ''\<newline>''] ?ls @ [Lit ''.'']"
  have "\<exists>a b. ?msg = a @ (Lit ''* '' # fmt ctx) @ b" if "ctx \<in> set ctxs" for ctx
  proof -
    from that have "(Lit ''* '' # fmt ctx) \<in> set ?ls" by auto
    from join_has_line[OF this, of "[Lit ''\<newline>'']"]
    obtain a b where "join [Lit ''\<newline>''] ?ls = a @ (Lit ''* '' # fmt ctx) @ b" by blast
    then have "?msg = (Lit ''The following status checks are not green for '' # fmt sha @
                Lit '':\<newline>'' # a) @ (Lit ''* '' # fmt ctx) @ (b @ [Lit ''.''])" by simp
    then show ?thesis by blast
  qed
  moreover have "snd (check_commit c hdrs http head_repo sha) = Inl (DeploymentFailure ?msg)"
    using assms by (rule check_commit_not_green)
  ultimately show ?thesis by blast
qed

text \<open>
  The theorem at \<^const>\<open>example_status\<close>: the check \<^verbatim>\<open>ci/build\<close> succeeded and is
  listed.
\<close>

theorem check_commit_lists_every_status_witness:
  "snd (check_commit \<lparr>trigger = ''deploy to'', env_file = None, allow_draft = False,
                       ignore_status_checks = False, comment = True\<rparr> []
          (\<lambda>rq. Some \<lparr>status_code = 200, resp_text = ''{}'', resp_json = Some example_status\<rparr>)
          (JStr ''octo/repo'') (JStr ''abc123''))
   = Inl (DeploymentFailure
           [Lit ''The following status checks are not green for '', Lit ''abc123'',
            Lit '':\<newline>'', Lit ''* '', Lit ''ci/build'', Lit ''\<newline>'', Lit ''* '', Lit ''ci/test'',
            Lit ''.''])"
  using check_commit_lists_every_status
          [of "\<lparr>trigger = ''deploy to'', env_file = None, allow_draft = False,
                       ignore_status_checks = False, comment = True\<rparr>"
              "\<lambda>rq. Some \<lparr>status_code = 200, resp_text = ''{}'', resp_json = Some example_status\<rparr>"
              "JStr ''octo/repo''" "JStr ''abc123''" "[]"
              "\<lparr>status_code = 200, resp_text = ''{}'', resp_json = Some example_status\<rparr>"
              example_status "JStr ''failure''"
              "[JObj [(''context'', JStr ''ci/build''), (''state'', JStr ''success'')],
                JObj [(''context'', JStr ''ci/test''), (''state'', JStr ''failure'')]]"
              "[JStr ''ci/build'', JStr ''ci/test'']"]
  by (simp add: example_status_def)

section \<open>The environment resolver\<close>

lemma find_environment_named:
  assumes "\<forall>r\<in>set records. \<exists>n. subscript r ''name'' = Inr n"
  shows "snd (find_environment e records) =
           Inr (find (\<lambda>r. subscript r ''name'' = Inr (JStr e)) records)"
  using assms
proof (induction records)
  case Nil
  then show ?case by (simp add: io_simps)
next
  case (Cons r records)
  then obtain n where n: "subscript r ''name'' = Inr n" by auto
  from Cons have "snd (find_environment e records) =
           Inr (find (\<lambda>r. subscript r ''name'' = Inr (JStr e)) records)" by simp
  with n show ?case by (simp add: io_simps)
qed

lemma find_environment_stops:
  assumes "map (\<lambda>r. subscript r ''name'') pre = map Inr names"
    and "JStr e \<notin> set names"
    and "subscript m ''name'' = Inr (JStr e)"
  shows "find_environment e (pre @ m # post) =
           (map (\<lambda>n. Print (Lit ''::debug::'' # Lit ''Checking environment '' # fmt n))
              (names @ [JStr e]),
            Inr (Some m))"
  using assms(1,2)
proof (induction pre arbitrary: names)
  case Nil
  with assms(3) show ?case by (simp add: io_simps ret_def)
next
  case (Cons r pre)
  then obtain n rest where c: "names = n # rest" by (cases names) auto
  with Cons.prems have "subscript r ''name'' = Inr n" "n \<noteq> JStr e"
    and "map (\<lambda>r. subscript r ''name'') pre = map Inr rest" "JStr e \<notin> set rest" by auto
  with Cons.IH[of rest] c show ?case by (simp add: io_simps)
qed

lemma find_environment_raises:
  assumes "map (\<lambda>r. subscript r ''name'') pre = map Inr names"
    and "JStr e \<notin> set names"
    and "subscript bad ''name'' = Inl err"
  shows "find_environment e (pre @ bad # post) =
           (map (\<lambda>n. Print (Lit ''::debug::'' # Lit ''Checking environment '' # fmt n)) names,
            Inl err)"
  using assms(1,2)
proof (induction pre arbitrary: names)
  case Nil
  with assms(3) show ?case by (simp add: io_simps raise_def)
next
  case (Cons r pre)
  then obtain n rest where c: "names = n # rest" by (cases names) auto
  with Cons.prems have "subscript r ''name'' = Inr n" "n \<noteq> JStr e"
    and "map (\<lambda>r. subscript r ''name'') pre = map Inr rest" "JStr e \<notin> set rest" by auto
  with Cons.IH[of rest] c show ?case by (simp add: io_simps)
qed

lemma get_environment_no_file:
  "env_file c = None \<or> env_file c = Some [] \<Longrightarrow>
   get_environment c fs e = ([Call Get_environment], Inr (JObj [(''name'', JStr e)]))"
  by (auto simp: get_environment_def io_simps ret_def)

lemma get_environment_file:
  assumes "env_file c = Some path" and "path \<noteq> []" and "fs path = Json_file envs"
    and "iterate envs = Inr records"
  shows "get_environment c fs e =
     (Call Get_environment # Print [Lit ''::debug::'', Lit ''Get environment''] #
      Print [Lit ''::debug::'', Lit ''Loaded environment validation file''] #
      fst (find_environment e records),
      case snd (find_environment e records) of
        Inl err \<Rightarrow> Inl err
      | Inr (Some env) \<Rightarrow> Inr env
      | Inr None \<Rightarrow>
          Inl (DeploymentFailure
                 [Lit (''Environment '' @ [CHR 0x27]), Lit e,
                  Lit (CHR 0x27 # '' doesn't exist in CONFIG['env_file'] (''), Lit path,
                  Lit '').'']))"
  using assms
  by (simp add: get_environment_def io_simps load_json_def bind_io_eta[of "find_environment e records"]
        split: sum.splits option.splits)

lemma get_environment_unreadable:
  assumes "env_file c = Some path" and "path \<noteq> []"
  shows "fs path = No_file \<Longrightarrow> get_environment c fs e =
           ([Call Get_environment, Print [Lit ''::debug::'', Lit ''Get environment'']], Inl OSError)"
    and "fs path = Not_json \<Longrightarrow> get_environment c fs e =
           ([Call Get_environment, Print [Lit ''::debug::'', Lit ''Get environment'']],
            Inl JSONDecodeError)"
  using assms
  by (simp_all add: get_environment_def io_simps load_json_def)

text \<open>
  An exception of \<^const>\<open>get_environment\<close> other than \<^verbatim>\<open>DeploymentFailure\<close> passes the
  handler of the second \<^verbatim>\<open>try\<close> block: nothing is posted.
\<close>

lemma second_try_fatal:
  assumes "snd (get_environment c fs e) = Inl err" and "\<forall>msg. err \<noteq> DeploymentFailure msg"
  shows "second_try c hdrs fs http pr head_repo sha pr_num e = (fst (get_environment c fs e), Inl err)"
  using assms
  by (cases "get_environment c fs e")
     (auto simp: second_try_def bind_io_pair try_except_def split: exn.splits)

lemma find_None_iff_all: "(find P xs = None) = (\<forall>x\<in>set xs. \<not> P x)"
  by (induction xs) auto

text \<open>
  C6. Without an allowlist file, \<^verbatim>\<open>get_environment\<close> returns the record with the
  requested name and nothing else. With a file that holds a JSON array of records that
  each have a name, it returns the first record whose name equals the requested name, and
  raises \<^verbatim>\<open>DeploymentFailure\<close> exactly when no record has that name. A file that cannot
  be read or is not JSON raises \<^verbatim>\<open>OSError\<close> or \<^verbatim>\<open>JSONDecodeError\<close>, which the second
  \<^verbatim>\<open>try\<close> block does not catch: the run ends with status 1 and no request sent.
\<close>

theorem get_environment_resolves:
  shows "(env_file c = None \<or> env_file c = Some [] \<longrightarrow>
            snd (get_environment c fs e) = Inr (JObj [(''name'', JStr e)]))
   \<and> (env_file c = Some path \<and> path \<noteq> [] \<and> fs path = Json_file (JArr records)
        \<and> (\<forall>r\<in>set records. \<exists>n. subscript r ''name'' = Inr n) \<longrightarrow>
          snd (get_environment c fs e) =
            (case find (\<lambda>r. subscript r ''name'' = Inr (JStr e)) records of
               Some r \<Rightarrow> Inr r
             | None \<Rightarrow>
                 Inl (DeploymentFailure
                        [Lit (''Environment '' @ [CHR 0x27]), Lit e,
                         Lit (CHR 0x27 # '' doesn't exist in CONFIG['env_file'] (''), Lit path,
                         Lit '').'']))
          \<and> ((\<exists>msg. snd (get_environment c fs e) = Inl (DeploymentFailure msg)) =
               (\<forall>r\<in>set records. subscript r ''name'' \<noteq> Inr (JStr e))))
   \<and> (env_file c = Some path \<and> path \<noteq> [] \<and> (fs path = No_file \<or> fs path = Not_json) \<longrightarrow>
          snd (get_environment c fs e) = Inl (if fs path = No_file then OSError else JSONDecodeError)
          \<and> second_try c hdrs fs http pr head_repo sha pr_num e =
               ([Call Get_environment, Print [Lit ''::debug::'', Lit ''Get environment'']],
                Inl (if fs path = No_file then OSError else JSONDecodeError))
          \<and> exit_status (snd (second_try c hdrs fs http pr head_repo sha pr_num e)) = 1)"
proof (intro conjI impI)
  assume "env_file c = None \<or> env_file c = Some []"
  then show "snd (get_environment c fs e) = Inr (JObj [(''name'', JStr e)])"
    by (simp add: get_environment_no_file)
next
  assume a: "env_file c = Some path \<and> path \<noteq> [] \<and> fs path = Json_file (JArr records)
        \<and> (\<forall>r\<in>set records. \<exists>n. subscript r ''name'' = Inr n)"
  then have f: "snd (find_environment e records) =
           Inr (find (\<lambda>r. subscript r ''name'' = Inr (JStr e)) records)"
    by (simp add: find_environment_named)
  from a have g: "snd (get_environment c fs e) =
      (case snd (find_environment e records) of
        Inl err \<Rightarrow> Inl err
      | Inr (Some env) \<Rightarrow> Inr env
      | Inr None \<Rightarrow>
          Inl (DeploymentFailure
                 [Lit (''Environment '' @ [CHR 0x27]), Lit e,
                  Lit (CHR 0x27 # '' doesn't exist in CONFIG['env_file'] (''), Lit path,
                  Lit '').'']))"
    by (simp add: get_environment_file[of c path fs "JArr records" records e])
  show r: "snd (get_environment c fs e) =
            (case find (\<lambda>r. subscript r ''name'' = Inr (JStr e)) records of
               Some r \<Rightarrow> Inr r
             | None \<Rightarrow>
                 Inl (DeploymentFailure
                        [Lit (''Environment '' @ [CHR 0x27]), Lit e,
                         Lit (CHR 0x27 # '' doesn't exist in CONFIG['env_file'] (''), Lit path,
                         Lit '').'']))"
    by (simp add: g f split: option.splits)
  show "(\<exists>msg. snd (get_environment c fs e) = Inl (DeploymentFailure msg)) =
               (\<forall>r\<in>set records. subscript r ''name'' \<noteq> Inr (JStr e))"
    using find_None_iff_all[of "\<lambda>r. subscript r ''name'' = Inr (JStr e)" records]
    by (auto simp: r split: option.splits)
next
  assume a: "env_file c = Some path \<and> path \<noteq> [] \<and> (fs path = No_file \<or> fs path = Not_json)"
  then have g: "get_environment c fs e =
      ([Call Get_environment, Print [Lit ''::debug::'', Lit ''Get environment'']],
       Inl (if fs path = No_file then OSError else JSONDecodeError))"
    using get_environment_unreadable[of c path fs e] by auto
  then show "snd (get_environment c fs e) = Inl (if fs path = No_file then OSError else JSONDecodeError)"
    by simp
  from g have "second_try c hdrs fs http pr head_repo sha pr_num e =
      (fst (get_environment c fs e), Inl (if fs path = No_file then OSError else JSONDecodeError))"
    by (intro second_try_fatal) auto
  with g show s: "second_try c hdrs fs http pr head_repo sha pr_num e =
               ([Call Get_environment, Print [Lit ''::debug::'', Lit ''Get environment'']],
                Inl (if fs path = No_file then OSError else JSONDecodeError))"
    by simp
  show "exit_status (snd (second_try c hdrs fs http pr head_repo sha pr_num e)) = 1"
    by (simp add: s)
qed

text \<open>
  The theorem with no file, at \<^const>\<open>example_allowlist\<close> for an environment it has and
  for one it lacks, and at a file that is not JSON.
\<close>

theorem get_environment_resolves_witness:
  "snd (get_environment \<lparr>trigger = ''deploy to'', env_file = None, allow_draft = False,
                          ignore_status_checks = False, comment = True\<rparr>
          (\<lambda>p. No_file) ''anything'') = Inr (JObj [(''name'', JStr ''anything'')])
   \<and> snd (get_environment \<lparr>trigger = ''deploy to'', env_file = Some ''envs.json'', allow_draft = False,
                          ignore_status_checks = False, comment = True\<rparr>
          (\<lambda>p. Json_file example_allowlist) ''prod'')
       = Inr (JObj [(''name'', JStr ''prod''), (''production'', JBool True)])
   \<and> (\<exists>msg. snd (get_environment \<lparr>trigger = ''deploy to'', env_file = Some ''envs.json'',
                          allow_draft = False, ignore_status_checks = False, comment = True\<rparr>
          (\<lambda>p. Json_file example_allowlist) ''qa'') = Inl (DeploymentFailure msg))
   \<and> snd (get_environment \<lparr>trigger = ''deploy to'', env_file = Some ''envs.json'', allow_draft = False,
                          ignore_status_checks = False, comment = True\<rparr>
          (\<lambda>p. Not_json) ''prod'') = Inl JSONDecodeError"
  using get_environment_resolves
          [of "\<lparr>trigger = ''deploy to'', env_file = None, allow_draft = False,
                          ignore_status_checks = False, comment = True\<rparr>"
              "\<lambda>p. No_file" "''anything''" "''envs.json''" "[]"]
        get_environment_resolves
          [of "\<lparr>trigger = ''deploy to'', env_file = Some ''envs.json'', allow_draft = False,
                          ignore_status_checks = False, comment = True\<rparr>"
              "\<lambda>p. Json_file example_allowlist" "''prod''" "''envs.json''"
              "[JObj [(''name'', JStr ''staging'')],
                JObj [(''name'', JStr ''prod''), (''production'', JBool True)]]"]
        get_environment_resolves
          [of "\<lparr>trigger = ''deploy to'', env_file = Some ''envs.json'', allow_draft = False,
                          ignore_status_checks = False, comment = True\<rparr>"
              "\<lambda>p. Json_file example_allowlist" "''qa''" "''envs.json''"
              "[JObj [(''name'', JStr ''staging'')],
                JObj [(''name'', JStr ''prod''), (''production'', JBool True)]]"]
        get_environment_resolves
          [of "\<lparr>trigger = ''deploy to'', env_file = Some ''envs.json'', allow_draft = False,
                          ignore_status_checks = False, comment = True\<rparr>"
              "\<lambda>p. Not_json" "''prod''" "''envs.json''" "[]"]
  by (simp add: example_allowlist_def)

text \<open>
  C10. With an allowlist file, \<^verbatim>\<open>get_environment\<close> reads the records in the order of
  the array and stops at the first whose name matches: the run and its result do not
  depend on the records after it, whatever they are. A record without a \<^verbatim>\<open>name\<close> key
  that comes before any match raises \<^verbatim>\<open>KeyError\<close>, whatever follows it; the second
  \<^verbatim>\<open>try\<close> block does not catch it, so the run ends with status 1 and posts nothing.
\<close>

theorem allowlist_scan_stops_at_first_match:
  assumes "env_file c = Some path" and "path \<noteq> []"
    and "map (\<lambda>r. subscript r ''name'') pre = map Inr names"
    and "JStr e \<notin> set names"
  shows "(fs path = Json_file (JArr (pre @ m # post)) \<and> subscript m ''name'' = Inr (JStr e) \<longrightarrow>
            get_environment c fs e =
              (Call Get_environment # Print [Lit ''::debug::'', Lit ''Get environment''] #
               Print [Lit ''::debug::'', Lit ''Loaded environment validation file''] #
               map (\<lambda>n. Print (Lit ''::debug::'' # Lit ''Checking environment '' # fmt n))
                 (names @ [JStr e]),
               Inr m))
       \<and> (fs path = Json_file (JArr (pre @ JObj kvs # post)) \<and> map_of kvs ''name'' = None \<longrightarrow>
            get_environment c fs e =
              (Call Get_environment # Print [Lit ''::debug::'', Lit ''Get environment''] #
               Print [Lit ''::debug::'', Lit ''Loaded environment validation file''] #
               map (\<lambda>n. Print (Lit ''::debug::'' # Lit ''Checking environment '' # fmt n)) names,
               Inl (KeyError ''name''))
            \<and> second_try c hdrs fs http pr head_repo sha pr_num e =
                 (fst (get_environment c fs e), Inl (KeyError ''name''))
            \<and> exit_status (snd (second_try c hdrs fs http pr head_repo sha pr_num e)) = 1)"
proof (intro conjI impI)
  assume a: "fs path = Json_file (JArr (pre @ m # post)) \<and> subscript m ''name'' = Inr (JStr e)"
  then have "find_environment e (pre @ m # post) =
           (map (\<lambda>n. Print (Lit ''::debug::'' # Lit ''Checking environment '' # fmt n))
              (names @ [JStr e]),
            Inr (Some m))"
    using assms(3,4) by (intro find_environment_stops) simp_all
  with a assms(1,2) show "get_environment c fs e =
              (Call Get_environment # Print [Lit ''::debug::'', Lit ''Get environment''] #
               Print [Lit ''::debug::'', Lit ''Loaded environment validation file''] #
               map (\<lambda>n. Print (Lit ''::debug::'' # Lit ''Checking environment '' # fmt n))
                 (names @ [JStr e]),
               Inr m)"
    by (simp add: get_environment_file[of c path fs "JArr (pre @ m # post)" "pre @ m # post" e])
next
  assume a: "fs path = Json_file (JArr (pre @ JObj kvs # post)) \<and> map_of kvs ''name'' = None"
  then have "subscript (JObj kvs) ''name'' = Inl (KeyError ''name'')" by simp
  with assms(3,4) have "find_environment e (pre @ JObj kvs # post) =
           (map (\<lambda>n. Print (Lit ''::debug::'' # Lit ''Checking environment '' # fmt n)) names,
            Inl (KeyError ''name''))"
    by (intro find_environment_raises) simp_all
  with a assms(1,2) show g: "get_environment c fs e =
              (Call Get_environment # Print [Lit ''::debug::'', Lit ''Get environment''] #
               Print [Lit ''::debug::'', Lit ''Loaded environment validation file''] #
               map (\<lambda>n. Print (Lit ''::debug::'' # Lit ''Checking environment '' # fmt n)) names,
               Inl (KeyError ''name''))"
    by (simp add: get_environment_file[of c path fs "JArr (pre @ JObj kvs # post)"
                    "pre @ JObj kvs # post" e])
  then show s: "second_try c hdrs fs http pr head_repo sha pr_num e =
                 (fst (get_environment c fs e), Inl (KeyError ''name''))"
    by (intro second_try_fatal) simp_all
  show "exit_status (snd (second_try c hdrs fs http pr head_repo sha pr_num e)) = 1"
    by (simp add: s)
qed

text \<open>
  The theorem at an array whose match is followed by a record without a name and by a
  number, and at an array where the record without a name comes before the match.
\<close>

theorem allowlist_scan_stops_at_first_match_witness:
  "snd (get_environment \<lparr>trigger = ''deploy to'', env_file = Some ''envs.json'', allow_draft = False,
                          ignore_status_checks = False, comment = True\<rparr>
          (\<lambda>p. Json_file (JArr [JObj [(''name'', JStr ''staging'')],
                                 JObj [(''name'', JStr ''prod'')],
                                 JObj [(''production'', JBool True)], JNum 3]))
          ''prod'') = Inr (JObj [(''name'', JStr ''prod'')])
   \<and> snd (get_environment \<lparr>trigger = ''deploy to'', env_file = Some ''envs.json'', allow_draft = False,
                          ignore_status_checks = False, comment = True\<rparr>
          (\<lambda>p. Json_file (JArr [JObj [(''name'', JStr ''staging'')],
                                 JObj [(''production'', JBool True)],
                                 JObj [(''name'', JStr ''prod'')]]))
          ''prod'') = Inl (KeyError ''name'')"
  using allowlist_scan_stops_at_first_match
          [of "\<lparr>trigger = ''deploy to'', env_file = Some ''envs.json'', allow_draft = False,
                          ignore_status_checks = False, comment = True\<rparr>"
              "''envs.json''" "[JObj [(''name'', JStr ''staging'')]]" "[JStr ''staging'']" "''prod''"
              "\<lambda>p. Json_file (JArr [JObj [(''name'', JStr ''staging'')],
                                 JObj [(''name'', JStr ''prod'')],
                                 JObj [(''production'', JBool True)], JNum 3])"
              "JObj [(''name'', JStr ''prod'')]"
              "[JObj [(''production'', JBool True)], JNum 3]"]
        allowlist_scan_stops_at_first_match
          [of "\<lparr>trigger = ''deploy to'', env_file = Some ''envs.json'', allow_draft = False,
                          ignore_status_checks = False, comment = True\<rparr>"
              "''envs.json''" "[JObj [(''name'', JStr ''staging'')]]" "[JStr ''staging'']" "''prod''"
              "\<lambda>p. Json_file (JArr [JObj [(''name'', JStr ''staging'')],
                                 JObj [(''production'', JBool True)],
                                 JObj [(''name'', JStr ''prod'')]])"
              _ "[JObj [(''name'', JStr ''prod'')]]" "[(''production'', JBool True)]"]
  by simp

section \<open>Ignoring the status checks\<close>

lemma requests_trigger_deployment:
  assumes "environment = JObj kvs" and "map_of kvs ''name'' = Some name"
  shows "requests (fst (trigger_deployment c hdrs http head_repo ref environment description)) =
     [\<lparr>req_verb = POST,
       req_url = Lit ''https://api.github.com/repos/'' # fmt head_repo @ [Lit ''/deployments''],
       req_headers = dict_set ''Accept'' ''application/vnd.github.ant-man-preview+json'' hdrs,
       req_json = Some (deployment_params c ref name description
                          (case map_of kvs ''transient'' of None \<Rightarrow> JBool False | Some v \<Rightarrow> v)
                          (case map_of kvs ''production'' of None \<Rightarrow> JBool True | Some v \<Rightarrow> v))\<rparr>]"
  using assms
  by (simp add: trigger_deployment_def trace_simps Let_def fst_try_except_all
        requests_set_deployment_outputs split: sum.splits option.splits)

text \<open>
  C7. With \<^verbatim>\<open>ignore_status_checks\<close> set, \<^verbatim>\<open>check_commit\<close> returns at once and sends no
  request. The one request of \<^verbatim>\<open>trigger_deployment\<close> carries \<^verbatim>\<open>required_contexts\<close> as
  the empty list when \<^verbatim>\<open>ignore_status_checks\<close> is set, and has no such key when it is
  not.
\<close>

theorem ignore_status_checks_effect:
  shows "(ignore_status_checks c \<longrightarrow>
            check_commit c hdrs http head_repo sha = ([Call Check_commit], Inr ())
            \<and> requests (fst (check_commit c hdrs http head_repo sha)) = [])
       \<and> (environment = JObj kvs \<and> map_of kvs ''name'' = Some name \<longrightarrow>
            (\<exists>params.
               requests (fst (trigger_deployment c hdrs http head_repo sha environment description)) =
                 [\<lparr>req_verb = POST,
                   req_url = Lit ''https://api.github.com/repos/'' # fmt head_repo @
                             [Lit ''/deployments''],
                   req_headers = dict_set ''Accept''
                                   ''application/vnd.github.ant-man-preview+json'' hdrs,
                   req_json = Some params\<rparr>]
               \<and> map_of params ''required_contexts'' =
                   (if ignore_status_checks c then Some (PJson (JArr [])) else None)))"
proof (intro conjI impI)
  assume "ignore_status_checks c"
  then show "check_commit c hdrs http head_repo sha = ([Call Check_commit], Inr ())"
    by (simp add: check_commit_def io_simps)
  then show "requests (fst (check_commit c hdrs http head_repo sha)) = []"
    by simp
next
  assume a: "environment = JObj kvs \<and> map_of kvs ''name'' = Some name"
  let ?params = "deployment_params c sha name description
                          (case map_of kvs ''transient'' of None \<Rightarrow> JBool False | Some v \<Rightarrow> v)
                          (case map_of kvs ''production'' of None \<Rightarrow> JBool True | Some v \<Rightarrow> v)"
  have "map_of ?params ''required_contexts'' =
          (if ignore_status_checks c then Some (PJson (JArr [])) else None)"
    by (simp add: deployment_params_def)
  with a requests_trigger_deployment[of environment kvs name c hdrs http head_repo sha description]
  show "\<exists>params.
               requests (fst (trigger_deployment c hdrs http head_repo sha environment description)) =
                 [\<lparr>req_verb = POST,
                   req_url = Lit ''https://api.github.com/repos/'' # fmt head_repo @
                             [Lit ''/deployments''],
                   req_headers = dict_set ''Accept''
                                   ''application/vnd.github.ant-man-preview+json'' hdrs,
                   req_json = Some params\<rparr>]
               \<and> map_of params ''required_contexts'' =
                   (if ignore_status_checks c then Some (PJson (JArr [])) else None)"
    by blast
qed

text \<open>
  The theorem for the environment \<^verbatim>\<open>staging\<close>, with the flag set and not set.
\<close>

theorem ignore_status_checks_effect_witness:
  "requests (fst (check_commit (example_config\<lparr>ignore_status_checks := True\<rparr>) [] example_http
                    (JStr ''octo/repo'') (JStr ''abc123''))) = []
   \<and> map req_json
         (requests (fst (trigger_deployment (example_config\<lparr>ignore_status_checks := True\<rparr>) []
                     example_http (JStr ''octo/repo'') (JStr ''abc123'')
                     (JObj [(''name'', JStr ''staging'')])
                     [Lit ''Automatic deployment from #'', Str_of (JNum 7)]))) =
       [Some [(''ref'', PJson (JStr ''abc123'')),
              (''environment'', PJson (JStr ''staging'')),
              (''description'', PStr [Lit ''Automatic deployment from #'', Str_of (JNum 7)]),
              (''transient_environment'', PJson (JBool False)),
              (''production_environment'', PJson (JBool True)),
              (''required_contexts'', PJson (JArr []))]]
   \<and> map req_json
         (requests (fst (trigger_deployment example_config []
                     example_http (JStr ''octo/repo'') (JStr ''abc123'')
                     (JObj [(''name'', JStr ''staging'')])
                     [Lit ''Automatic deployment from #'', Str_of (JNum 7)]))) =
       [Some [(''ref'', PJson (JStr ''abc123'')),
              (''environment'', PJson (JStr ''staging'')),
              (''description'', PStr [Lit ''Automatic deployment from #'', Str_of (JNum 7)]),
              (''transient_environment'', PJson (JBool False)),
              (''production_environment'', PJson (JBool True))]]"
proof -
  have t: "ignore_status_checks (example_config\<lparr>ignore_status_checks := True\<rparr>)"
    by (simp add: example_config_def)
  have e: "JObj [(''name'', JStr ''staging'')] = JObj [(''name'', JStr ''staging'')]
           \<and> map_of [(''name'', JStr ''staging'')] ''name'' = Some (JStr ''staging'')"
    by simp
  from ignore_status_checks_effect
         [of "example_config\<lparr>ignore_status_checks := True\<rparr>" "[]" example_http
             "JStr ''octo/repo''" "JStr ''abc123''" "JObj [(''name'', JStr ''staging'')]"
             "[(''name'', JStr ''staging'')]" "JStr ''staging''"
             "[Lit ''Automatic deployment from #'', Str_of (JNum 7)]"] t e
  have 1: "requests (fst (check_commit (example_config\<lparr>ignore_status_checks := True\<rparr>) []
                    example_http (JStr ''octo/repo'') (JStr ''abc123''))) = []"
    and 2: "requests (fst (trigger_deployment (example_config\<lparr>ignore_status_checks := True\<rparr>) []
                     example_http (JStr ''octo/repo'') (JStr ''abc123'')
                     (JObj [(''name'', JStr ''staging'')])
                     [Lit ''Automatic deployment from #'', Str_of (JNum 7)])) \<noteq> []"
    by auto
  have 3: "map req_json
         (requests (fst (trigger_deployment (example_config\<lparr>ignore_status_checks := True\<rparr>) []
                     example_http (JStr ''octo/repo'') (JStr ''abc123'')
                     (JObj [(''name'', JStr ''staging'')])
                     [Lit ''Automatic deployment from #'', Str_of (JNum 7)]))) =
       [Some [(''ref'', PJson (JStr ''abc123'')),
              (''environment'', PJson (JStr ''staging'')),
              (''description'', PStr [Lit ''Automatic deployment from #'', Str_of (JNum 7)]),
              (''transient_environment'', PJson (JBool False)),
              (''production_environment'', PJson (JBool True)),
              (''required_contexts'', PJson (JArr []))]]"
    by (simp add: run_defs example_config_def example_http_def)
  have 4: "map req_json
         (requests (fst (trigger_deployment example_config []
                     example_http (JStr ''octo/repo'') (JStr ''abc123'')
                     (JObj [(''name'', JStr ''staging'')])
                     [Lit ''Automatic deployment from #'', Str_of (JNum 7)]))) =
       [Some [(''ref'', PJson (JStr ''abc123'')),
              (''environment'', PJson (JStr ''staging'')),
              (''description'', PStr [Lit ''Automatic deployment from #'', Str_of (JNum 7)]),
              (''transient_environment'', PJson (JBool False)),
              (''production_environment'', PJson (JBool True))]]"
    by (simp add: run_defs example_config_def example_http_def)
  from 1 3 4 show ?thesis by simp
qed

section \<open>The order of the steps\<close>








lemma main_valid_event:
  assumes "env ''GITHUB_ACTION'' = Some a" and "env ''GITHUB_TOKEN'' = Some token"
    and "env ''GITHUB_EVENT_PATH'' = Some path" and "fs path = Json_file event"
    and "snd (validate_event event) = Inr ()"
  shows "snd (main env fs http) = Inl (KeyError ''pr_url'')"
  using assms
  by (simp add: main_def config_pr_url_def trace_simps Let_def environ_def load_json_def)



section \<open>Comments that are not commands\<close>





section \<open>Startup\<close>

text \<open>
  C1. The check of line 196 reads \<^verbatim>\<open>GITHUB_ACTION\<close>, not \<^verbatim>\<open>GITHUB_TOKEN\<close>. With
  \<^verbatim>\<open>GITHUB_ACTION\<close> set and \<^verbatim>\<open>GITHUB_TOKEN\<close> absent, the run prints nothing and ends
  with the \<^verbatim>\<open>KeyError\<close> of line 202; with \<^verbatim>\<open>GITHUB_TOKEN\<close> set and \<^verbatim>\<open>GITHUB_ACTION\<close>
  absent, it prints the hint about a missing token and exits with status 1.
\<close>

theorem missing_token_is_not_reported:
  "main [''GITHUB_ACTION'' \<mapsto> ''run'', ''GITHUB_EVENT_PATH'' \<mapsto> ''/event.json''] fs http =
     ([], Inl (KeyError ''GITHUB_TOKEN''))
   \<and> printed (fst (main [''GITHUB_ACTION'' \<mapsto> ''run'', ''GITHUB_EVENT_PATH'' \<mapsto> ''/event.json'']
                     fs http)) = []
   \<and> main [''GITHUB_TOKEN'' \<mapsto> ''secret'', ''GITHUB_EVENT_PATH'' \<mapsto> ''/event.json''] fs http =
     ([Print [Lit ''::error ::'',
              Lit ''Missing GITHUB_TOKEN environment variable. (hint: `env: GITHUB_TOKEN: ${{ secrets.GITHUB_TOKEN }}`)'']],
      Inl (SystemExit 1))"
  by (simp add: main_def environ_def io_simps raise_def)

end
